theory Spec2Isabelle
  imports Main
begin

section \<open>Values, property descriptors and the object heap\<close>

text \<open>
  The library (\<^verbatim>\<open>lib/observer.js\<close>, \<^verbatim>\<open>lib/link.js\<close>, \<^verbatim>\<open>lib/path.js\<close>) works on
  JavaScript objects through \<^verbatim>\<open>Object.getOwnPropertyDescriptor\<close>, \<^verbatim>\<open>Object.defineProperty\<close>
  and plain property reads and writes. The embedding makes that host explicit:

  \<^item> a value is \<^verbatim>\<open>undefined\<close>, \<^verbatim>\<open>null\<close>, a boolean, a number, a string or a reference to an
    object (functions are objects). Numbers are integers here (no \<^verbatim>\<open>NaN\<close>, no fractions), so
    that HOL equality on \<open>val\<close> is JavaScript's \<^verbatim>\<open>===\<close>;
  \<^item> an object is its table of own properties and the flag that says whether it is
    extensible. Objects have no prototype here, and the properties a primitive gets from its
    wrapper (a string's \<^verbatim>\<open>length\<close>) are left out. The one plain object whose prototype
    matters to the library, the registry \<^verbatim>\<open>observers\<close>, is modelled with it;
  \<^item> user functions (callbacks, getters and setters that were on a property before it was
    observed) are opaque: each has a number as its identity, a call of a callback or of a
    setter is recorded in an event log, and a user getter returns a fixed value. They do not
    change the heap and do not call back into the library.
\<close>

type_synonym ref = nat
type_synonym key = string

datatype val = VUndef | VNull | VBool bool | VNum int | VStr string | VObj ref

text \<open>\<^verbatim>\<open>if (v)\<close> and \<^verbatim>\<open>!v\<close>: the falsy values are \<^verbatim>\<open>undefined\<close>, \<^verbatim>\<open>null\<close>, \<^verbatim>\<open>false\<close>, \<^verbatim>\<open>0\<close> and \<^verbatim>\<open>''\<close>.\<close>

fun truthy :: "val \<Rightarrow> bool" where
  "truthy VUndef = False"
| "truthy VNull = False"
| "truthy (VBool b) = b"
| "truthy (VNum n) = (n \<noteq> 0)"
| "truthy (VStr s) = (s \<noteq> [])"
| "truthy (VObj r) = True"

text \<open>\<^verbatim>\<open>typeof v === 'object' || typeof v === 'function'\<close>; \<^verbatim>\<open>typeof null\<close> is \<^verbatim>\<open>'object'\<close>.\<close>

fun typeof_object_or_function :: "val \<Rightarrow> bool" where
  "typeof_object_or_function (VObj r) = True"
| "typeof_object_or_function VNull = True"
| "typeof_object_or_function v = False"

text \<open>
  A getter or setter found on a property is either a user function or the bound
  \<^verbatim>\<open>this.get.bind(this)\<close> / \<^verbatim>\<open>this.set.bind(this)\<close> of the \<^verbatim>\<open>Observer\<close> instance with the
  given identity.
\<close>

datatype getter = UserGet nat val | ObsGet nat
datatype setter = UserSet nat | ObsSet nat

text \<open>
  An own property as the object holds it: a data property (value, writable, enumerable,
  configurable) or an accessor property (get, set, enumerable, configurable).
\<close>

datatype own_prop =
    Data val bool bool bool
  | Accessor "getter option" "setter option" bool bool

text \<open>
  A property descriptor object, as \<^verbatim>\<open>Object.getOwnPropertyDescriptor\<close> returns it and
  \<^verbatim>\<open>Object.defineProperty\<close> takes it: every field may be absent (\<open>None\<close>); \<^verbatim>\<open>get\<close> and
  \<^verbatim>\<open>set\<close> may be present and \<^verbatim>\<open>undefined\<close> (\<open>Some None\<close>).
\<close>

record desc =
  d_value :: "val option"
  d_writable :: "bool option"
  d_get :: "getter option option"
  d_set :: "setter option option"
  d_enumerable :: "bool option"
  d_configurable :: "bool option"

datatype error =
    TypeError       \<comment> \<open>raised by the host\<close>
  | InvalidRoot     \<comment> \<open>\<^verbatim>\<open>new Error('Cannot bind to undefined value')\<close>\<close>
  | UnboundPath     \<comment> \<open>\<^verbatim>\<open>new Error('Event fired on unbound path')\<close>\<close>

text \<open>Callbacks held by an \<^verbatim>\<open>Observer\<close>: a user function, or the bound \<^verbatim>\<open>change\<close> of the
  \<^verbatim>\<open>Link\<close> at an index of a chain.\<close>

datatype callback = UserCb nat | LinkCb nat nat

datatype event =
    CallCb nat "val list"      \<comment> \<open>user callback called with these arguments\<close>
  | CallSetter nat val val     \<comment> \<open>user setter called with \<^verbatim>\<open>this\<close> and a value\<close>

text \<open>An \<^verbatim>\<open>Observer\<close> instance; \<^verbatim>\<open>target\<close>, \<^verbatim>\<open>property\<close> and \<^verbatim>\<open>definition\<close> stay unset on
  the read-only short circuit of the constructor.\<close>

record observer =
  o_callbacks :: "callback list"
  o_value :: val
  o_target :: "ref option"
  o_property :: "key option"
  o_definition :: "desc option"

text \<open>
  The chain of \<^verbatim>\<open>Link\<close> instances that \<^verbatim>\<open>new this.FirstLink(root)\<close> builds for one root of
  one path. The link at index \<open>i\<close> has \<^verbatim>\<open>part\<close> \<open>c_parts ! i\<close> (on its prototype), \<^verbatim>\<open>next\<close>
  the link at \<open>i + 1\<close>, \<^verbatim>\<open>last\<close> the final link, \<^verbatim>\<open>root\<close> \<open>c_root\<close>, \<^verbatim>\<open>path\<close> \<open>c_path\<close> and
  \<^verbatim>\<open>observer\<close> \<open>c_observers ! i\<close>. \<^verbatim>\<open>callbacks\<close> and \<^verbatim>\<open>value\<close> are the two fields that
  \<^verbatim>\<open>Path.observe\<close> puts on the first link.
\<close>

record chain =
  c_path :: nat
  c_root :: val
  c_parts :: "key list"
  c_observers :: "nat option list"
  c_callbacks :: "nat list"
  c_value :: val

text \<open>A \<^verbatim>\<open>Path\<close> instance; \<^verbatim>\<open>observed\<close> is a \<^verbatim>\<open>WeakMap\<close> from root objects to first links.\<close>

record path =
  p_path :: "key list"
  p_observed :: "ref \<rightharpoonup> nat"

text \<open>
  The state of the program: the object heap, the module variable \<^verbatim>\<open>observers\<close>, the
  instances of \<^verbatim>\<open>Observer\<close>, of the link chains and of \<^verbatim>\<open>Path\<close> (each store indexed by
  identity; \<^verbatim>\<open>new\<close> takes the next free identity), and the log of calls to user functions.
\<close>

record world =
  heap :: "ref \<Rightarrow> key \<rightharpoonup> own_prop"
  extensible :: "ref \<Rightarrow> bool"
  observers :: "key \<rightharpoonup> (ref \<rightharpoonup> nat)"
  obs_store :: "nat \<Rightarrow> observer"
  next_obs :: nat
  chain_store :: "nat \<Rightarrow> chain"
  next_chain :: nat
  path_store :: "nat \<Rightarrow> path"
  next_path :: nat
  log :: "event list"

type_synonym 'a result = "(error + 'a) \<times> world"

section \<open>The host: descriptors, \<^verbatim>\<open>Object.defineProperty\<close>, reads\<close>

text \<open>\<^verbatim>\<open>Object.getOwnPropertyDescriptor\<close> on a property that exists.\<close>

fun desc_of :: "own_prop \<Rightarrow> desc" where
  "desc_of (Data v w e c) =
     \<lparr>d_value = Some v, d_writable = Some w, d_get = None, d_set = None,
      d_enumerable = Some e, d_configurable = Some c\<rparr>"
| "desc_of (Accessor g s e c) =
     \<lparr>d_value = None, d_writable = None, d_get = Some g, d_set = Some s,
      d_enumerable = Some e, d_configurable = Some c\<rparr>"

definition is_accessor_desc :: "desc \<Rightarrow> bool" where
  "is_accessor_desc d = (d_get d \<noteq> None \<or> d_set d \<noteq> None)"

definition is_data_desc :: "desc \<Rightarrow> bool" where
  "is_data_desc d = (d_value d \<noteq> None \<or> d_writable d \<noteq> None)"

fun is_data :: "own_prop \<Rightarrow> bool" where
  "is_data (Data v w e c) = True"
| "is_data (Accessor g s e c) = False"

fun configurable :: "own_prop \<Rightarrow> bool" where
  "configurable (Data v w e c) = c"
| "configurable (Accessor g s e c) = c"

definition or_else :: "'a option \<Rightarrow> 'a \<Rightarrow> 'a" where
  "or_else x d = (case x of Some y \<Rightarrow> y | None \<Rightarrow> d)"

text \<open>Every field present in the descriptor replaces the attribute of the property.\<close>

fun apply_desc :: "desc \<Rightarrow> own_prop \<Rightarrow> own_prop" where
  "apply_desc d (Data v w e c) =
     Data (or_else (d_value d) v) (or_else (d_writable d) w)
          (or_else (d_enumerable d) e) (or_else (d_configurable d) c)"
| "apply_desc d (Accessor g s e c) =
     Accessor (or_else (d_get d) g) (or_else (d_set d) s)
          (or_else (d_enumerable d) e) (or_else (d_configurable d) c)"

text \<open>A data property becomes an accessor property or the reverse: enumerable and
  configurable are kept, the other attributes take their defaults.\<close>

fun convert :: "own_prop \<Rightarrow> own_prop" where
  "convert (Data v w e c) = Accessor None None e c"
| "convert (Accessor g s e c) = Data VUndef False e c"

text \<open>What a non-configurable property refuses (ValidateAndApplyPropertyDescriptor).\<close>

fun rejects :: "own_prop \<Rightarrow> desc \<Rightarrow> bool" where
  "rejects (Data v w e c) d =
     (d_configurable d = Some True
      \<or> (case d_enumerable d of Some e' \<Rightarrow> e' \<noteq> e | None \<Rightarrow> False)
      \<or> is_accessor_desc d
      \<or> (\<not> w \<and> (d_writable d = Some True
                 \<or> (case d_value d of Some v' \<Rightarrow> v' \<noteq> v | None \<Rightarrow> False))))"
| "rejects (Accessor g s e c) d =
     (d_configurable d = Some True
      \<or> (case d_enumerable d of Some e' \<Rightarrow> e' \<noteq> e | None \<Rightarrow> False)
      \<or> is_data_desc d
      \<or> (case d_get d of Some g' \<Rightarrow> g' \<noteq> g | None \<Rightarrow> False)
      \<or> (case d_set d of Some s' \<Rightarrow> s' \<noteq> s | None \<Rightarrow> False))"

definition set_prop :: "ref \<Rightarrow> key \<Rightarrow> own_prop \<Rightarrow> world \<Rightarrow> world" where
  "set_prop r p x w = w\<lparr>heap := (heap w)(r := (heap w r)(p \<mapsto> x))\<rparr>"

text \<open>
  \<^verbatim>\<open>Object.defineProperty(r, p, d)\<close>. A descriptor with both accessor and data fields is a
  \<^verbatim>\<open>TypeError\<close>; a missing property is created with defaults for the absent fields, unless
  the object is not extensible, which is a \<^verbatim>\<open>TypeError\<close>; a non-configurable property throws
  a \<^verbatim>\<open>TypeError\<close> on a change it refuses.
\<close>

definition define_property :: "ref \<Rightarrow> key \<Rightarrow> desc \<Rightarrow> world \<Rightarrow> unit result" where
  "define_property r p d w =
     (if is_accessor_desc d \<and> is_data_desc d then (Inl TypeError, w)
      else case heap w r p of
        None \<Rightarrow>
          if \<not> extensible w r then (Inl TypeError, w)
          else
            (Inr (), set_prop r p
               (apply_desc d (if is_accessor_desc d then Accessor None None False False
                              else Data VUndef False False False)) w)
      | Some cur \<Rightarrow>
          if \<not> configurable cur \<and> rejects cur d then (Inl TypeError, w)
          else if is_data cur \<and> is_accessor_desc d \<or> \<not> is_data cur \<and> is_data_desc d
          then (Inr (), set_prop r p (apply_desc d (convert cur)) w)
          else (Inr (), set_prop r p (apply_desc d cur) w))"

section \<open>\<^verbatim>\<open>lib/observer.js\<close>: the class \<^verbatim>\<open>Observer\<close>\<close>

text \<open>
  The registry is the plain object \<^verbatim>\<open>var observers = {}\<close>: the field \<open>observers\<close> of the
  state holds its own properties, each a \<^verbatim>\<open>WeakMap\<close> that \<^verbatim>\<open>getMap\<close> stored, and it inherits
  the properties of \<^verbatim>\<open>Object.prototype\<close>. Under one of these names \<^verbatim>\<open>observers[property]\<close>
  is a function (\<^verbatim>\<open>Object.prototype\<close> itself under \<^verbatim>\<open>__proto__\<close>): a truthy value that has
  no method \<^verbatim>\<open>get\<close>, \<^verbatim>\<open>set\<close> or \<^verbatim>\<open>delete\<close>.
\<close>

definition object_prototype_names :: "key list" where
  "object_prototype_names =
     [''constructor'', ''hasOwnProperty'', ''isPrototypeOf'', ''propertyIsEnumerable'',
      ''toLocaleString'', ''toString'', ''valueOf'', ''__proto__'', ''__defineGetter__'',
      ''__defineSetter__'', ''__lookupGetter__'', ''__lookupSetter__'']"

datatype slot = WeakMap "ref \<rightharpoonup> nat" | Inherited

text \<open>\<^verbatim>\<open>observers[property]\<close>, \<open>None\<close> for \<^verbatim>\<open>undefined\<close>.\<close>

definition observers_get :: "world \<Rightarrow> key \<Rightarrow> slot option" where
  "observers_get w property =
     (case observers w property of
        Some m \<Rightarrow> Some (WeakMap m)
      | None \<Rightarrow> if property \<in> set object_prototype_names then Some Inherited else None)"

text \<open>\<^verbatim>\<open>static getMap(property, create)\<close>.\<close>

definition getMap :: "key \<Rightarrow> bool \<Rightarrow> world \<Rightarrow> slot option \<times> world" where
  "getMap property create w =
     (case observers_get w property of
        Some weakmap \<Rightarrow> (Some weakmap, w)
      | None \<Rightarrow>
          if create then
            (Some (WeakMap Map.empty), w\<lparr>observers := (observers w)(property \<mapsto> Map.empty)\<rparr>)
          else (None, w))"

text \<open>The literal \<^verbatim>\<open>{ enumerable: true, writable: true, value: undefined }\<close>.\<close>

definition default_definition :: desc where
  "default_definition =
     \<lparr>d_value = Some VUndef, d_writable = Some True, d_get = None, d_set = None,
      d_enumerable = Some True, d_configurable = None\<rparr>"

text \<open>
  \<^verbatim>\<open>constructor(target, property)\<close> on an object. The new instance takes the identity
  \<open>next_obs w\<close>. When \<^verbatim>\<open>Object.defineProperty\<close> throws, the instance is garbage.
\<close>

definition Observer_new :: "ref \<Rightarrow> key \<Rightarrow> world \<Rightarrow> nat result" where
  "Observer_new target property w =
     (let definition = (case heap w target property of
                          Some x \<Rightarrow> desc_of x | None \<Rightarrow> default_definition);
          get = d_get definition; set = d_set definition;
          writable = d_writable definition; enumerable = d_enumerable definition;
          this = next_obs w;
          ob = \<lparr>o_callbacks = [], o_value = or_else (d_value definition) VUndef,
                o_target = None, o_property = None, o_definition = None\<rparr>;
          w1 = w\<lparr>obs_store := (obs_store w)(this := ob), next_obs := Suc this\<rparr>
      in if writable \<noteq> Some True
            \<or> ((case get of Some (Some g) \<Rightarrow> True | _ \<Rightarrow> False)
                \<and> \<not> (case set of Some (Some s) \<Rightarrow> True | _ \<Rightarrow> False))
         then (Inr this, w1)
         else
           let w2 = w1\<lparr>obs_store := (obs_store w1)(this :=
                        ob\<lparr>o_target := Some target, o_property := Some property,
                           o_definition := Some definition\<rparr>)\<rparr>
           in case define_property target property
                  \<lparr>d_value = None, d_writable = None,
                   d_get = Some (Some (case get of Some (Some g) \<Rightarrow> g | _ \<Rightarrow> ObsGet this)),
                   d_set = Some (Some (ObsSet this)),
                   d_enumerable = Some (enumerable = Some True),
                   d_configurable = Some True\<rparr> w2 of
                (Inl e, w3) \<Rightarrow> (Inl e, w3)
              | (Inr u, w3) \<Rightarrow> (Inr this, w3))"

text \<open>\<^verbatim>\<open>add(callback)\<close>.\<close>

definition Observer_add :: "nat \<Rightarrow> callback \<Rightarrow> world \<Rightarrow> world" where
  "Observer_add this callback w =
     w\<lparr>obs_store := (obs_store w)(this :=
          (obs_store w this)\<lparr>o_callbacks := o_callbacks (obs_store w this) @ [callback]\<rparr>)\<rparr>"

text \<open>
  \<^verbatim>\<open>static observe(object, property, callback)\<close>. Under a name inherited from
  \<^verbatim>\<open>Object.prototype\<close> \<^verbatim>\<open>map.get(object)\<close> is a \<^verbatim>\<open>TypeError\<close> (\<^verbatim>\<open>map.get\<close> is not a
  function). A target that is not an object ends in a \<^verbatim>\<open>TypeError\<close> on every route:
  \<^verbatim>\<open>undefined\<close> and \<^verbatim>\<open>null\<close> in \<^verbatim>\<open>Object.getOwnPropertyDescriptor\<close>, another primitive in
  \<^verbatim>\<open>Object.defineProperty\<close> or, after the read-only short circuit, in \<^verbatim>\<open>map.set\<close> (a
  \<^verbatim>\<open>WeakMap\<close> key must be an object).
\<close>

definition Observer_observe :: "val \<Rightarrow> key \<Rightarrow> callback \<Rightarrow> world \<Rightarrow> nat result" where
  "Observer_observe object property callback w =
     (case getMap property True w of
        (None, w1) \<Rightarrow> (Inl TypeError, w1)
      | (Some Inherited, w1) \<Rightarrow> (Inl TypeError, w1)
      | (Some (WeakMap m), w1) \<Rightarrow>
          (case object of
             VObj r \<Rightarrow>
               (case m r of
                  Some observer \<Rightarrow> (Inr observer, Observer_add observer callback w1)
                | None \<Rightarrow>
                    (case Observer_new r property w1 of
                       (Inl e, w2) \<Rightarrow> (Inl e, w2)
                     | (Inr observer, w2) \<Rightarrow>
                         (Inr observer,
                          Observer_add observer callback
                            (w2\<lparr>observers := (observers w2)(property \<mapsto> m(r \<mapsto> observer))\<rparr>))))
           | _ \<Rightarrow> (Inl TypeError, w1)))"

text \<open>\<^verbatim>\<open>dispose()\<close>: \<^verbatim>\<open>definition.value = this.value\<close> writes into the stored descriptor
  object itself. \<^verbatim>\<open>target\<close> and \<^verbatim>\<open>property\<close> are set whenever \<^verbatim>\<open>definition\<close> is.\<close>

definition Observer_dispose :: "nat \<Rightarrow> world \<Rightarrow> unit result" where
  "Observer_dispose this w =
     (let ob = obs_store w this in
      case (o_definition ob, o_target ob, o_property ob) of
        (None, t, p) \<Rightarrow> (Inr (), w)
      | (Some definition, Some target, Some property) \<Rightarrow>
          let definition' = (if d_value definition \<noteq> None
                             then definition\<lparr>d_value := Some (o_value ob)\<rparr>
                             else definition);
              w1 = w\<lparr>obs_store := (obs_store w)(this := ob\<lparr>o_definition := Some definition'\<rparr>)\<rparr>
          in define_property target property definition' w1
      | _ \<Rightarrow> (Inl TypeError, w))"

text \<open>\<^verbatim>\<open>callbacks.indexOf(callback)\<close>, \<open>None\<close> for \<^verbatim>\<open>-1\<close>.\<close>

fun indexOf :: "'a list \<Rightarrow> 'a \<Rightarrow> nat option" where
  "indexOf [] x = None"
| "indexOf (y # ys) x = (if y = x then Some 0 else map_option Suc (indexOf ys x))"

text \<open>\<^verbatim>\<open>callbacks.splice(index, 1)\<close>.\<close>

definition splice1 :: "nat \<Rightarrow> 'a list \<Rightarrow> 'a list" where
  "splice1 index xs = take index xs @ drop (Suc index) xs"

text \<open>\<^verbatim>\<open>remove(callback)\<close>.\<close>

definition Observer_remove :: "nat \<Rightarrow> callback \<Rightarrow> world \<Rightarrow> bool result" where
  "Observer_remove this callback w =
     (let ob = obs_store w this in
      case indexOf (o_callbacks ob) callback of
        None \<Rightarrow> (Inr False, w)
      | Some index \<Rightarrow>
          let callbacks = splice1 index (o_callbacks ob);
              w1 = w\<lparr>obs_store := (obs_store w)(this := ob\<lparr>o_callbacks := callbacks\<rparr>)\<rparr>
          in if callbacks = [] then
               (case Observer_dispose this w1 of
                  (Inl e, w2) \<Rightarrow> (Inl e, w2)
                | (Inr u, w2) \<Rightarrow>
                    (case (o_definition ob, o_target ob, o_property ob) of
                       (None, t, p) \<Rightarrow> (Inr True, w2)
                     | (Some definition, Some target, Some property) \<Rightarrow>
                         (case observers_get w2 property of
                            Some (WeakMap m) \<Rightarrow>
                              (Inr True,
                               w2\<lparr>observers := (observers w2)(property \<mapsto> m(target := None))\<rparr>)
                          | _ \<Rightarrow> (Inl TypeError, w2))
                     | _ \<Rightarrow> (Inl TypeError, w2)))
             else (Inr True, w1))"

text \<open>\<^verbatim>\<open>static unobserve(object, property, callback)\<close>; \<^verbatim>\<open>map.get(object)\<close> is a \<^verbatim>\<open>TypeError\<close>
  under a name inherited from \<^verbatim>\<open>Object.prototype\<close>.\<close>

definition Observer_unobserve :: "val \<Rightarrow> key \<Rightarrow> callback \<Rightarrow> world \<Rightarrow> unit result" where
  "Observer_unobserve object property callback w =
     (case getMap property False w of
        (None, w1) \<Rightarrow> (Inr (), w1)
      | (Some Inherited, w1) \<Rightarrow> (Inl TypeError, w1)
      | (Some (WeakMap m), w1) \<Rightarrow>
          (case (case object of VObj r \<Rightarrow> m r | _ \<Rightarrow> None) of
             None \<Rightarrow> (Inr (), w1)
           | Some observer \<Rightarrow>
               (case Observer_remove observer callback w1 of
                  (Inl e, w2) \<Rightarrow> (Inl e, w2)
                | (Inr b, w2) \<Rightarrow> (Inr (), w2))))"

text \<open>\<^verbatim>\<open>get()\<close>.\<close>

definition Observer_get :: "nat \<Rightarrow> world \<Rightarrow> val" where
  "Observer_get this w = o_value (obs_store w this)"

section \<open>\<^verbatim>\<open>lib/link.js\<close>: the class \<^verbatim>\<open>Link\<close>, and \<^verbatim>\<open>Path.change\<close>\<close>

text \<open>
  A \<^verbatim>\<open>Link\<close> instance is given by its chain \<open>c\<close>, its index \<open>i\<close> and the parts from its own
  onwards (\<^verbatim>\<open>this.part\<close>, then the parts of \<^verbatim>\<open>this.next\<close> and its successors, which the
  prototypes fix): \<^verbatim>\<open>this.next\<close> exists when parts remain after the first. A method that
  follows \<^verbatim>\<open>this.next\<close> is a recursion on those parts. There is no link with no part.
\<close>

definition link_observer :: "chain \<Rightarrow> nat \<Rightarrow> nat option" where
  "link_observer ch i = (if i < length (c_observers ch) then c_observers ch ! i else None)"

definition set_link_observer :: "nat \<Rightarrow> nat \<Rightarrow> nat \<Rightarrow> world \<Rightarrow> world" where
  "set_link_observer c i observer w =
     w\<lparr>chain_store := (chain_store w)(c :=
          (chain_store w c)\<lparr>c_observers := (c_observers (chain_store w c))[i := Some observer]\<rparr>)\<rparr>"

text \<open>\<^verbatim>\<open>detach()\<close>. It leaves \<^verbatim>\<open>this.observer\<close> as it is.\<close>

fun Link_detach :: "nat \<Rightarrow> nat \<Rightarrow> key list \<Rightarrow> world \<Rightarrow> unit result" where
  "Link_detach c i [] w = (Inr (), w)"
| "Link_detach c i (part # rest) w =
     (case link_observer (chain_store w c) i of
        None \<Rightarrow> (Inr (), w)
      | Some observer \<Rightarrow>
          (case Observer_remove observer (LinkCb c i) w of
             (Inl e, w1) \<Rightarrow> (Inl e, w1)
           | (Inr b, w1) \<Rightarrow>
               if rest \<noteq> [] then Link_detach c (Suc i) rest w1 else (Inr (), w1)))"

text \<open>\<^verbatim>\<open>attach(target)\<close>.\<close>

fun Link_attach :: "nat \<Rightarrow> nat \<Rightarrow> key list \<Rightarrow> val \<Rightarrow> world \<Rightarrow> val result" where
  "Link_attach c i [] target w = (Inr VUndef, w)"
| "Link_attach c i (part # rest) target w =
     (case (if link_observer (chain_store w c) i \<noteq> None
            then Link_detach c i (part # rest) w else (Inr (), w)) of
        (Inl e, w1) \<Rightarrow> (Inl e, w1)
      | (Inr u, w1) \<Rightarrow>
          (case Observer_observe target part (LinkCb c i) w1 of
             (Inl e, w2) \<Rightarrow> (Inl e, w2)
           | (Inr observer, w2) \<Rightarrow>
               let value = Observer_get observer w2;
                   w3 = set_link_observer c i observer w2
               in if rest \<noteq> [] then
                    (if truthy value then Link_attach c (Suc i) rest value w3
                     else (Inr VUndef, w3))
                  else (Inr value, w3)))"

text \<open>\<^verbatim>\<open>observed.get(root)\<close> on the \<^verbatim>\<open>WeakMap\<close> of a path: \<^verbatim>\<open>undefined\<close> for a key that is
  not an object.\<close>

definition observed_get :: "path \<Rightarrow> val \<Rightarrow> nat option" where
  "observed_get p root = (case root of VObj r \<Rightarrow> p_observed p r | _ \<Rightarrow> None)"

text \<open>
  \<^verbatim>\<open>Path.change(root, value)\<close> of \<^verbatim>\<open>lib/path.js\<close>. \<^verbatim>\<open>old = link.value\<close> is read before the
  test \<^verbatim>\<open>if (!link)\<close>, so an unbound root is a \<^verbatim>\<open>TypeError\<close> of the host and the
  \<^verbatim>\<open>throw\<close> below it is never reached.
\<close>

definition Path_change :: "nat \<Rightarrow> val \<Rightarrow> val \<Rightarrow> world \<Rightarrow> unit result" where
  "Path_change this root value w =
     (case observed_get (path_store w this) root of
        None \<Rightarrow> (Inl TypeError, w)
      | Some link \<Rightarrow>
          let old = c_value (chain_store w link) in
          if old \<noteq> value then
            (Inr (),
             w\<lparr>log := log w @ map (\<lambda>callback. CallCb callback [value, old])
                                  (c_callbacks (chain_store w link)),
               chain_store := (chain_store w)(link := (chain_store w link)\<lparr>c_value := value\<rparr>)\<rparr>)
          else (Inr (), w))"

text \<open>\<^verbatim>\<open>change(target, value)\<close> of the link \<open>i\<close> of chain \<open>c\<close>.\<close>

definition Link_change :: "nat \<Rightarrow> nat \<Rightarrow> val \<Rightarrow> val \<Rightarrow> world \<Rightarrow> unit result" where
  "Link_change c i target value w =
     (let ch = chain_store w c; next = drop (Suc i) (c_parts ch) in
      case link_observer ch i of
        None \<Rightarrow> (Inl TypeError, w)
      | Some observer \<Rightarrow>
          let existing = Observer_get observer w in
          if existing = value then (Inr (), w)
          else
            (case (if next \<noteq> [] \<and> truthy value then
                     (if typeof_object_or_function value
                      then Link_attach c (Suc i) next value w
                      else (Inr VUndef, w))
                   else (Inr value, w)) of
               (Inl e, w1) \<Rightarrow> (Inl e, w1)
             | (Inr result, w1) \<Rightarrow> Path_change (c_path ch) (c_root ch) result w1))"

text \<open>\<^verbatim>\<open>callback(target, value)\<close> for a callback held by an \<^verbatim>\<open>Observer\<close>.\<close>

fun call_callback :: "callback \<Rightarrow> val \<Rightarrow> val \<Rightarrow> world \<Rightarrow> unit result" where
  "call_callback (UserCb n) target value w =
     (Inr (), w\<lparr>log := log w @ [CallCb n [target, value]]\<rparr>)"
| "call_callback (LinkCb c i) target value w = Link_change c i target value w"

section \<open>\<^verbatim>\<open>Observer.set\<close>\<close>

text \<open>
  \<^verbatim>\<open>set(value, silent)\<close>. The \<^verbatim>\<open>for ... of\<close> loop reads \<^verbatim>\<open>this.callbacks\<close> by index while
  the callbacks run, and a link's \<^verbatim>\<open>change\<close> can add to or remove from that very array, so
  the loop is a recursion on the index over the current state: \<open>Iterate i\<close> is the loop
  about to read index \<open>i\<close>, \<open>Finish\<close> the code after it. The final \<^verbatim>\<open>set.call(target, value)\<close>
  is a call in tail position; when the original setter is the bound \<^verbatim>\<open>set\<close> of another
  instance the function continues there. \<open>None\<close> stands for a run that never returns.
\<close>

datatype pc = Enter | Iterate nat | Finish

partial_function (option)
  Observer_set :: "nat \<Rightarrow> val \<Rightarrow> bool \<Rightarrow> pc \<Rightarrow> world \<Rightarrow> unit result option" where
  "Observer_set this value silent pc w =
     (let ob = obs_store w this;
          target = (case o_target ob of Some r \<Rightarrow> VObj r | None \<Rightarrow> VUndef)
      in case o_definition ob of
        None \<Rightarrow> Some (Inl TypeError, w)
      | Some definition \<Rightarrow>
          (case pc of
             Enter \<Rightarrow>
               if o_value ob = value then Some (Inr (), w)
               else if \<not> silent then Observer_set this value silent (Iterate 0) w
               else Observer_set this value silent Finish w
           | Iterate i \<Rightarrow>
               if i < length (o_callbacks ob) then
                 (case call_callback (o_callbacks ob ! i) target value w of
                    (Inl e, w1) \<Rightarrow> Some (Inl e, w1)
                  | (Inr u, w1) \<Rightarrow> Observer_set this value silent (Iterate (Suc i)) w1)
               else Observer_set this value silent Finish w
           | Finish \<Rightarrow>
               let w1 = w\<lparr>obs_store := (obs_store w)(this := ob\<lparr>o_value := value\<rparr>)\<rparr> in
               (case d_set definition of
                  Some (Some (UserSet n)) \<Rightarrow>
                    Some (Inr (), w1\<lparr>log := log w1 @ [CallSetter n target value]\<rparr>)
                | Some (Some (ObsSet other)) \<Rightarrow> Observer_set other value False Enter w1
                | _ \<Rightarrow> Some (Inr (), w1))))"

section \<open>The host: property reads and writes\<close>

text \<open>
  \<^verbatim>\<open>object[property]\<close>. Reading a property of \<^verbatim>\<open>undefined\<close> or \<^verbatim>\<open>null\<close> is a \<^verbatim>\<open>TypeError\<close>;
  another primitive has no property here.
\<close>

definition get_property :: "val \<Rightarrow> key \<Rightarrow> world \<Rightarrow> error + val" where
  "get_property object property w =
     (case object of
        VUndef \<Rightarrow> Inl TypeError
      | VNull \<Rightarrow> Inl TypeError
      | VObj r \<Rightarrow>
          (case heap w r property of
             None \<Rightarrow> Inr VUndef
           | Some (Data v wr e c) \<Rightarrow> Inr v
           | Some (Accessor None s e c) \<Rightarrow> Inr VUndef
           | Some (Accessor (Some (UserGet n v)) s e c) \<Rightarrow> Inr v
           | Some (Accessor (Some (ObsGet observer)) s e c) \<Rightarrow> Inr (Observer_get observer w))
      | _ \<Rightarrow> Inr VUndef)"

text \<open>
  \<^verbatim>\<open>object[property] = value\<close> on an object, in strict code (the library and its tests are
  modules): a write to a read-only property, to an accessor without setter or to a missing
  property of an object that is not extensible throws.
  The setter of an observed property is \<^verbatim>\<open>Observer.set\<close> with \<^verbatim>\<open>silent\<close> undefined.
\<close>

definition put_property :: "ref \<Rightarrow> key \<Rightarrow> val \<Rightarrow> world \<Rightarrow> unit result option" where
  "put_property r property value w =
     (case heap w r property of
        None \<Rightarrow>
          if extensible w r then Some (Inr (), set_prop r property (Data value True True True) w)
          else Some (Inl TypeError, w)
      | Some (Data v wr e c) \<Rightarrow>
          if wr then Some (Inr (), set_prop r property (Data value wr e c) w)
          else Some (Inl TypeError, w)
      | Some (Accessor g None e c) \<Rightarrow> Some (Inl TypeError, w)
      | Some (Accessor g (Some (UserSet n)) e c) \<Rightarrow>
          Some (Inr (), w\<lparr>log := log w @ [CallSetter n (VObj r) value]\<rparr>)
      | Some (Accessor g (Some (ObsSet observer)) e c) \<Rightarrow>
          Observer_set observer value False Enter w)"

section \<open>\<^verbatim>\<open>lib/path.js\<close>: the class \<^verbatim>\<open>Path\<close>\<close>

text \<open>
  The class \<^verbatim>\<open>Path\<close> imports \<^verbatim>\<open>./link\<close>; its text follows the class \<^verbatim>\<open>Observer\<close> in
  \<^verbatim>\<open>src/lib/observer.js\<close>.

  \<^verbatim>\<open>constructor(...path)\<close>. The classes that \<^verbatim>\<open>Link.define\<close> builds, one per part from the
  last to the first, are given by the list of parts; \<^verbatim>\<open>this.FirstLink\<close> is \<^verbatim>\<open>null\<close> for a
  path with no part.
\<close>

definition Path_new :: "key list \<Rightarrow> world \<Rightarrow> nat \<times> world" where
  "Path_new path w =
     (next_path w,
      w\<lparr>path_store := (path_store w)(next_path w := \<lparr>p_path = path, p_observed = Map.empty\<rparr>),
        next_path := Suc (next_path w)\<rparr>)"

text \<open>
  \<^verbatim>\<open>observe(root, callback)\<close>. \<^verbatim>\<open>new this.FirstLink(root)\<close> is a \<^verbatim>\<open>TypeError\<close> when the path
  has no part, and \<^verbatim>\<open>this.observed.set(root, link)\<close> one when the root is a primitive.
  When \<^verbatim>\<open>link.attach(root)\<close> throws, the chain stays registered with its callback.
\<close>

definition Path_observe :: "nat \<Rightarrow> val \<Rightarrow> nat \<Rightarrow> world \<Rightarrow> unit result" where
  "Path_observe this root callback w =
     (if \<not> truthy root then (Inl InvalidRoot, w)
      else case observed_get (path_store w this) root of
        Some link \<Rightarrow>
          (Inr (), w\<lparr>chain_store := (chain_store w)(link :=
                       (chain_store w link)\<lparr>c_callbacks := c_callbacks (chain_store w link) @ [callback]\<rparr>)\<rparr>)
      | None \<Rightarrow>
          let parts = p_path (path_store w this) in
          if parts = [] then (Inl TypeError, w)
          else
            let link = next_chain w;
                w1 = w\<lparr>chain_store := (chain_store w)(link :=
                         \<lparr>c_path = this, c_root = root, c_parts = parts,
                          c_observers = replicate (length parts) None,
                          c_callbacks = [], c_value = VUndef\<rparr>),
                       next_chain := Suc link\<rparr>
            in (case root of
                 VObj r \<Rightarrow>
                   (let observed = (p_observed (path_store w1 this))(r \<mapsto> link);
                        w2 = w1\<lparr>path_store := (path_store w1)(this := (path_store w1 this)\<lparr>p_observed := observed\<rparr>)\<rparr>;
                        w3 = w2\<lparr>chain_store := (chain_store w2)(link := (chain_store w2 link)\<lparr>c_callbacks := [callback]\<rparr>)\<rparr>
                    in case Link_attach link 0 parts root w3 of
                         (Inl e, w4) \<Rightarrow> (Inl e, w4)
                       | (Inr v, w4) \<Rightarrow>
                           (Inr (), w4\<lparr>chain_store := (chain_store w4)(link := (chain_store w4 link)\<lparr>c_value := v\<rparr>)\<rparr>))
               | _ \<Rightarrow> (Inl TypeError, w1)))"

text \<open>\<^verbatim>\<open>unobserve(root, callback)\<close>.\<close>

definition Path_unobserve :: "nat \<Rightarrow> val \<Rightarrow> nat \<Rightarrow> world \<Rightarrow> bool result" where
  "Path_unobserve this root callback w =
     (if \<not> truthy root then (Inr False, w)
      else case observed_get (path_store w this) root of
        None \<Rightarrow> (Inr False, w)
      | Some link \<Rightarrow>
          (case indexOf (c_callbacks (chain_store w link)) callback of
             None \<Rightarrow> (Inr False, w)
           | Some index \<Rightarrow>
               let callbacks = splice1 index (c_callbacks (chain_store w link));
                   w1 = w\<lparr>chain_store := (chain_store w)(link := (chain_store w link)\<lparr>c_callbacks := callbacks\<rparr>)\<rparr>
               in if callbacks = [] then
                    (case Link_detach link 0 (c_parts (chain_store w1 link)) w1 of
                       (Inl e, w2) \<Rightarrow> (Inl e, w2)
                     | (Inr u, w2) \<Rightarrow>
                         (Inr True,
                          case root of
                            VObj r \<Rightarrow>
                              w2\<lparr>path_store := (path_store w2)(this :=
                                   (path_store w2 this)\<lparr>p_observed := (p_observed (path_store w2 this))(r := None)\<rparr>)\<rparr>
                          | _ \<Rightarrow> w2))
                  else (Inr True, w1)))"

text \<open>The loop of \<^verbatim>\<open>get(root)\<close>: \<^verbatim>\<open>root = root[part]; if (!root) return root;\<close>.\<close>

fun walk :: "key list \<Rightarrow> val \<Rightarrow> world \<Rightarrow> error + val" where
  "walk [] root w = Inr root"
| "walk (part # rest) root w =
     (case get_property root part w of
        Inl e \<Rightarrow> Inl e
      | Inr v \<Rightarrow> if \<not> truthy v then Inr v else walk rest v w)"

text \<open>\<^verbatim>\<open>get(root)\<close>.\<close>

definition Path_get :: "nat \<Rightarrow> val \<Rightarrow> world \<Rightarrow> error + val" where
  "Path_get this root w =
     (case observed_get (path_store w this) root of
        Some link \<Rightarrow> Inr (c_value (chain_store w link))
      | None \<Rightarrow> walk (p_path (path_store w this)) root w)"

text \<open>\<^verbatim>\<open>Link.set(value, silent)\<close> of \<^verbatim>\<open>lib/link.js\<close>, on the link \<open>i\<close> of chain \<open>c\<close>.\<close>

definition Link_set :: "nat \<Rightarrow> nat \<Rightarrow> val \<Rightarrow> bool \<Rightarrow> world \<Rightarrow> bool result option" where
  "Link_set c i value silent w =
     (case link_observer (chain_store w c) i of
        None \<Rightarrow> Some (Inr False, w)
      | Some observer \<Rightarrow>
          (case Observer_set observer value silent Enter w of
             None \<Rightarrow> None
           | Some (Inl e, w1) \<Rightarrow> Some (Inl e, w1)
           | Some (Inr u, w1) \<Rightarrow> Some (Inr True, w1)))"

text \<open>\<^verbatim>\<open>set(root, value, silent)\<close>; \<^verbatim>\<open>link.last\<close> is the final link of the chain.\<close>

definition Path_set :: "nat \<Rightarrow> val \<Rightarrow> val \<Rightarrow> bool \<Rightarrow> world \<Rightarrow> bool result option" where
  "Path_set this root value silent w =
     (case observed_get (path_store w this) root of
        None \<Rightarrow> Some (Inr False, w)
      | Some link \<Rightarrow>
          (case Link_set link (length (c_parts (chain_store w link)) - 1) value silent w of
             None \<Rightarrow> None
           | Some (Inl e, w1) \<Rightarrow> Some (Inl e, w1)
           | Some (Inr b, w1) \<Rightarrow>
               if \<not> b then Some (Inr False, w1)
               else Some (Inr True,
                          w1\<lparr>chain_store := (chain_store w1)(link := (chain_store w1 link)\<lparr>c_value := value\<rparr>)\<rparr>)))"

section \<open>Programs that use the library\<close>

text \<open>
  The statement \<^verbatim>\<open>object.k1. ... .kn = value\<close> of user code: the properties before the
  last are read, the last is written. Writing a property of a primitive is a \<^verbatim>\<open>TypeError\<close>
  in strict code.
\<close>

fun assign :: "val \<Rightarrow> key list \<Rightarrow> val \<Rightarrow> world \<Rightarrow> unit result option" where
  "assign object [] value w = Some (Inr (), w)"
| "assign object [property] value w =
     (case object of
        VObj r \<Rightarrow> put_property r property value w
      | _ \<Rightarrow> Some (Inl TypeError, w))"
| "assign object (k # ks) value w =
     (case get_property object k w of
        Inl e \<Rightarrow> Some (Inl e, w)
      | Inr v \<Rightarrow> assign v ks value w)"

text \<open>Sequencing: the next statement runs in the state the last one left, unless that one
  threw or never returned.\<close>

definition and_then :: "'a result option \<Rightarrow> (world \<Rightarrow> 'b result option) \<Rightarrow> 'b result option" where
  "and_then m f =
     (case m of
        None \<Rightarrow> None
      | Some (Inl e, w) \<Rightarrow> Some (Inl e, w)
      | Some (Inr x, w) \<Rightarrow> f w)"

text \<open>The state a program starts in: no object has a property, every object is
  extensible, nothing is observed.\<close>

definition empty_world :: world where
  "empty_world =
     \<lparr>heap = (\<lambda>r. Map.empty), extensible = (\<lambda>r. True), observers = Map.empty,
      obs_store = (\<lambda>n. \<lparr>o_callbacks = [], o_value = VUndef, o_target = None,
                          o_property = None, o_definition = None\<rparr>),
      next_obs = 0,
      chain_store = (\<lambda>n. \<lparr>c_path = 0, c_root = VUndef, c_parts = [], c_observers = [],
                       c_callbacks = [], c_value = VUndef\<rparr>),
      next_chain = 0,
      path_store = (\<lambda>n. \<lparr>p_path = [], p_observed = Map.empty\<rparr>),
      next_path = 0, log = []\<rparr>"

text \<open>An object literal \<^verbatim>\<open>{k: v, ...}\<close>: writable, enumerable, configurable data properties.\<close>

definition literal :: "(key \<times> val) list \<Rightarrow> key \<rightharpoonup> own_prop" where
  "literal kvs = map_of (map (\<lambda>(k, v). (k, Data v True True True)) kvs)"

definition with_object :: "ref \<Rightarrow> (key \<rightharpoonup> own_prop) \<Rightarrow> world \<Rightarrow> world" where
  "with_object r obj w = w\<lparr>heap := (heap w)(r := obj)\<rparr>"

text \<open>How often the user callback \<open>n\<close> was called.\<close>

fun is_call :: "nat \<Rightarrow> event \<Rightarrow> bool" where
  "is_call n (CallCb m args) = (m = n)"
| "is_call n (CallSetter m t v) = False"

definition calls :: "nat \<Rightarrow> event list \<Rightarrow> nat" where
  "calls n evs = length (filter (is_call n) evs)"

text \<open>\<^verbatim>\<open>observers[property].get(object)\<close>, when the map exists: the \<^verbatim>\<open>Observer\<close> registered
  for a property of an object.\<close>

definition registered :: "world \<Rightarrow> key \<Rightarrow> ref \<Rightarrow> nat option" where
  "registered w property r = (case observers w property of None \<Rightarrow> None | Some m \<Rightarrow> m r)"

text \<open>
  The scenario of the test suite and of the specification: object 0 is the root
  \<^verbatim>\<open>{a: {b: {c: 7}}}\<close> (objects 1 and 2 inside), object 3 is \<^verbatim>\<open>{c: 'x'}\<close>, object 4 is
  \<^verbatim>\<open>{b: {c: 'x'}}\<close> (object 5 inside), object 6 is \<^verbatim>\<open>{c: 9}\<close>; path 0 is
  \<^verbatim>\<open>new Path('a', 'b', 'c')\<close>, and 100 is the user's callback.
\<close>

definition abc_world :: world where
  "abc_world =
     snd (Path_new [''a'', ''b'', ''c'']
       (with_object 0 (literal [(''a'', VObj 1)])
       (with_object 1 (literal [(''b'', VObj 2)])
       (with_object 2 (literal [(''c'', VNum 7)])
       (with_object 3 (literal [(''c'', VStr ''x'')])
       (with_object 4 (literal [(''b'', VObj 5)])
       (with_object 5 (literal [(''c'', VStr ''x'')]) empty_world)))))))"

definition abc_observed :: "unit result option" where
  "abc_observed = Some (Path_observe 0 (VObj 0) 100 abc_world)"

text \<open>\<^verbatim>\<open>root.a.b = undefined\<close> after the observation.\<close>

definition abc_broken :: "unit result option" where
  "abc_broken = and_then abc_observed (assign (VObj 0) [''a'', ''b''] VUndef)"

text \<open>After \<^verbatim>\<open>root.a.b = undefined\<close>, the write \<^verbatim>\<open>old.c = 9\<close> on the object that \<^verbatim>\<open>root.a.b\<close>
  was before.\<close>

definition abc_stale :: "unit result option" where
  "abc_stale = and_then abc_broken (assign (VObj 2) [''c''] (VNum 9))"

text \<open>Then \<^verbatim>\<open>root.a.b = {c: 9}\<close>, with a new object, allocated at 6.\<close>

definition abc_missed :: "unit result option" where
  "abc_missed =
     and_then abc_stale
       (\<lambda>w. assign (VObj 0) [''a'', ''b''] (VObj 6)
              (with_object 6 (literal [(''c'', VNum 9)]) w))"

text \<open>After \<^verbatim>\<open>root.a.b = undefined\<close>, instead: \<^verbatim>\<open>root.a.b = {c: 'x'}\<close>.\<close>

definition abc_reformed :: "unit result option" where
  "abc_reformed = and_then abc_broken (assign (VObj 0) [''a'', ''b''] (VObj 3))"

text \<open>Then \<^verbatim>\<open>root.a = {b: {c: 'x'}}\<close>.\<close>

definition abc_replaced :: "unit result option" where
  "abc_replaced = and_then abc_reformed (assign (VObj 0) [''a''] (VObj 4))"

text \<open>A root whose first segment holds a number: \<^verbatim>\<open>{a: n}\<close>, with \<^verbatim>\<open>new Path('a', 'b')\<close>.\<close>

definition num_world :: "int \<Rightarrow> world" where
  "num_world n =
     snd (Path_new [''a'', ''b''] (with_object 0 (literal [(''a'', VNum n)]) empty_world))"

text \<open>
  Object 0 after \<^verbatim>\<open>Object.defineProperty(object, 'a', {enumerable: true, configurable:
  true, get: get, set: set})\<close>, with user functions 1 and 2 (the getter returns 3).
\<close>

definition accessor_world :: world where
  "accessor_world =
     with_object 0 [''a'' \<mapsto> Accessor (Some (UserGet 1 (VNum 3))) (Some (UserSet 2)) True True]
       empty_world"

text \<open>Object 0 after \<^verbatim>\<open>Object.defineProperty(object, 'a', {enumerable: true, configurable:
  false, writable: false, value: 1})\<close>.\<close>

definition frozen_world :: world where
  "frozen_world = with_object 0 [''a'' \<mapsto> Data (VNum 1) False True False] empty_world"

text \<open>Object 0 after \<^verbatim>\<open>Object.defineProperty(object, 'a', {enumerable: true, configurable:
  false, writable: true, value: 1})\<close>.\<close>

definition sealed_world :: world where
  "sealed_world = with_object 0 [''a'' \<mapsto> Data (VNum 1) True True False] empty_world"

text \<open>Object 0 after \<^verbatim>\<open>Object.defineProperty(object, 'a', {enumerable: true, configurable:
  false, get: get})\<close>, with the user function 1 that returns 5.\<close>

definition getter_only_world :: world where
  "getter_only_world =
     with_object 0 [''a'' \<mapsto> Accessor (Some (UserGet 1 (VNum 5))) None True False] empty_world"

text \<open>Object 0 after \<^verbatim>\<open>Object.defineProperty(object, 'a', {writable: true, enumerable:
  false, configurable: true, value: 7})\<close>.\<close>

definition hidden_world :: world where
  "hidden_world = with_object 0 [''a'' \<mapsto> Data (VNum 7) True False True] empty_world"

text \<open>The same statement run once for each value of a list, in order.\<close>

fun assign_all :: "val \<Rightarrow> key list \<Rightarrow> val list \<Rightarrow> world \<Rightarrow> unit result option" where
  "assign_all object ks [] w = Some (Inr (), w)"
| "assign_all object ks (v # vs) w = and_then (assign object ks v w) (assign_all object ks vs)"

text \<open>\<^verbatim>\<open>Observer.observe(object, property, callback)\<close> for each callback of a list, in
  order, and \<^verbatim>\<open>Observer.unobserve(object, property, callback)\<close> likewise.\<close>

fun observe_all :: "ref \<Rightarrow> key \<Rightarrow> callback list \<Rightarrow> world \<Rightarrow> unit result option" where
  "observe_all r p [] w = Some (Inr (), w)"
| "observe_all r p (cb # cbs) w =
     and_then (Some (Observer_observe (VObj r) p cb w)) (observe_all r p cbs)"

fun unobserve_all :: "ref \<Rightarrow> key \<Rightarrow> callback list \<Rightarrow> world \<Rightarrow> unit result option" where
  "unobserve_all r p [] w = Some (Inr (), w)"
| "unobserve_all r p (cb # cbs) w =
     and_then (Some (Observer_unobserve (VObj r) p cb w)) (unobserve_all r p cbs)"

text \<open>
  A property is observed with the callbacks \<open>cbs\<close>, then written with each value of \<open>vs\<close>
  (\<^verbatim>\<open>object[property] = v\<close>), then every callback is removed again.
\<close>

definition round_trip ::
  "ref \<Rightarrow> key \<Rightarrow> callback list \<Rightarrow> val list \<Rightarrow> world \<Rightarrow> unit result option" where
  "round_trip r p cbs vs w =
     and_then (and_then (observe_all r p cbs w) (assign_all (VObj r) [p] vs))
       (unobserve_all r p cbs)"

text \<open>
  Nothing is registered for the property of the object yet, and the name is not one that
  the registry inherits from \<^verbatim>\<open>Object.prototype\<close>: \<^verbatim>\<open>getMap\<close> finds or creates a \<^verbatim>\<open>WeakMap\<close>.
\<close>

definition unobserved :: "world \<Rightarrow> key \<Rightarrow> ref \<Rightarrow> bool" where
  "unobserved w p r = (registered w p r = None \<and> p \<notin> set object_prototype_names)"




section \<open>Evaluation and shared lemmas\<close>

lemmas world_defs =
  empty_world_def literal_def with_object_def abc_world_def num_world_def accessor_world_def
  frozen_world_def sealed_world_def getter_only_world_def hidden_world_def Path_new_def and_then_def calls_def
  registered_def round_trip_def

lemmas observer_defs =
  Observer_observe_def Observer_new_def Observer_add_def getMap_def observers_get_def
  object_prototype_names_def define_property_def
  set_prop_def default_definition_def or_else_def is_accessor_desc_def is_data_desc_def
  Observer_get_def Observer_remove_def Observer_dispose_def Observer_unobserve_def
  splice1_def

lemmas link_defs =
  link_observer_def set_link_observer_def observed_get_def Path_change_def Link_change_def

lemmas path_defs =
  Path_observe_def Path_unobserve_def Path_get_def Link_set_def Path_set_def
  get_property_def put_property_def

lemmas run_defs = world_defs observer_defs link_defs path_defs Let_def Observer_set.simps

lemmas abc_defs = abc_replaced_def abc_reformed_def abc_broken_def abc_observed_def


section \<open>One notification per change of the resolved value\<close>

text \<open>The scenario of the specification holds: the callback has been called 0 times after
  \<^verbatim>\<open>observe\<close>, once after \<^verbatim>\<open>root.a.b = undefined\<close>, twice after \<^verbatim>\<open>root.a.b = {c: 'x'}\<close> and
  still twice after \<^verbatim>\<open>root.a = {b: {c: 'x'}}\<close>.\<close>

lemma abc_scenario_counts:
  "map_option (\<lambda>(r, w). (r, calls 100 (log w))) abc_observed = Some (Inr (), 0)"
  "map_option (\<lambda>(r, w). (r, calls 100 (log w))) abc_broken = Some (Inr (), 1)"
  "map_option (\<lambda>(r, w). (r, calls 100 (log w))) abc_reformed = Some (Inr (), 2)"
  "map_option (\<lambda>(r, w). (r, calls 100 (log w))) abc_replaced = Some (Inr (), 2)"
  by (simp_all add: abc_defs run_defs)

text \<open>
  C1, at the input where the code departs from it. After \<^verbatim>\<open>root.a.b = undefined\<close> the path
  \<^verbatim>\<open>(a, b, c)\<close> resolves to \<^verbatim>\<open>undefined\<close> and the callback has been called once. The write
  \<^verbatim>\<open>old.c = 9\<close> on the object that \<^verbatim>\<open>root.a.b\<close> was before leaves the path resolving to
  \<^verbatim>\<open>undefined\<close>, yet the callback is called a second time and \<^verbatim>\<open>path.get(root)\<close> is 9. Then
  \<^verbatim>\<open>root.a.b = {c: 9}\<close> changes what the path resolves to, from \<^verbatim>\<open>undefined\<close> to 9, and the
  callback is not called.
\<close>

theorem notified_without_change_and_change_unnotified:
  "map_option
     (\<lambda>(r, w). (r, walk [''a'', ''b'', ''c''] (VObj 0) w, calls 100 (log w))) abc_broken
     = Some (Inr (), Inr VUndef, 1)
   \<and> map_option
       (\<lambda>(r, w). (r, walk [''a'', ''b'', ''c''] (VObj 0) w, calls 100 (log w),
                   Path_get 0 (VObj 0) w)) abc_stale
     = Some (Inr (), Inr VUndef, 2, Inr (VNum 9))
   \<and> map_option
       (\<lambda>(r, w). (r, walk [''a'', ''b'', ''c''] (VObj 0) w, calls 100 (log w))) abc_missed
     = Some (Inr (), Inr (VNum 9), 2)"
  by (simp add: abc_stale_def abc_missed_def abc_defs run_defs)

section \<open>Writing through a path\<close>

text \<open>
  C2, at the input where the code departs from it. After \<^verbatim>\<open>root.a.b = undefined\<close> the path
  \<^verbatim>\<open>(a, b, c)\<close> is broken: walking it from the root gives \<^verbatim>\<open>undefined\<close>. Yet
  \<^verbatim>\<open>path.set(root, 5, true)\<close> returns \<^verbatim>\<open>true\<close>: the last link still holds the \<^verbatim>\<open>Observer\<close> of
  the old object 2, the write goes there (its \<^verbatim>\<open>c\<close> reads 5 afterwards), and the cached
  resolved value becomes 5.
\<close>

theorem set_on_broken_path_returns_true:
  "map_option
     (\<lambda>(r, w). (r, walk [''a'', ''b'', ''c''] (VObj 0) w, get_property (VObj 2) ''c'' w,
                 Path_get 0 (VObj 0) w))
     (and_then abc_broken (Path_set 0 (VObj 0) (VNum 5) True))
   = Some (Inr True, Inr VUndef, Inr (VNum 5), Inr (VNum 5))"
  by (simp add: abc_defs run_defs)

section \<open>Links beyond a changed segment\<close>

text \<open>
  C3, at the input where the code departs from it. After \<^verbatim>\<open>root.a.b = undefined\<close> the
  \<^verbatim>\<open>Observer\<close> of the old object 2 (identity 2, property \<^verbatim>\<open>c\<close>) is still registered and
  still holds the \<^verbatim>\<open>change\<close> of the last link; the later write \<^verbatim>\<open>old.c = 9\<close> on that object
  calls the user's callback a second time.
\<close>

theorem stale_link_still_notifies:
  "map_option (\<lambda>(r, w). (r, registered w ''c'' 2, o_callbacks (obs_store w 2), log w)) abc_broken
     = Some (Inr (), Some 2, [LinkCb 0 2], [CallCb 100 [VUndef, VNum 7]])
   \<and> map_option (\<lambda>(r, w). (r, log w)) (and_then abc_broken (assign (VObj 2) [''c''] (VNum 9)))
     = Some (Inr (), [CallCb 100 [VUndef, VNum 7], CallCb 100 [VNum 9, VUndef]])"
  by (simp add: abc_defs run_defs)

section \<open>The arguments of a path callback\<close>

text \<open>
  C4, at the input where the code departs from it. After \<^verbatim>\<open>path.observe(root, callback)\<close>
  on \<^verbatim>\<open>{a: {b: {c: 7}}}\<close>, the write \<^verbatim>\<open>root.a.b.c = 5\<close> calls the callback once, with the new
  value 5 first and the old value 7 second.
\<close>

theorem callback_gets_new_value_first:
  "map_option (\<lambda>(r, w). (r, log w))
     (and_then abc_observed (assign (VObj 0) [''a'', ''b'', ''c''] (VNum 5)))
   = Some (Inr (), [CallCb 100 [VNum 5, VNum 7]])"
  by (simp add: abc_defs run_defs)

section \<open>A property with a getter and a setter\<close>

text \<open>
  C5, at the input where the code departs from it. A configurable property with a getter
  and a setter is observed with the callback 100 and then assigned 12. The constructor took
  the read-only short circuit (an accessor descriptor has no \<^verbatim>\<open>writable\<close>): the \<^verbatim>\<open>Observer\<close>
  has no definition, the property still has its own getter and setter, and the assignment
  calls the setter and no callback.
\<close>

theorem accessor_property_not_intercepted:
  "map_option (\<lambda>(r, w). (r, o_definition (obs_store w 0), heap w 0 ''a'', log w))
     (and_then (Some (Observer_observe (VObj 0) ''a'' (UserCb 100) accessor_world))
        (assign (VObj 0) [''a''] (VNum 12)))
   = Some (Inr (), None,
           Some (Accessor (Some (UserGet 1 (VNum 3))) (Some (UserSet 2)) True True),
           [CallSetter 2 (VObj 0) (VNum 12)])"
  by (simp add: run_defs)

section \<open>A primitive on the path when a chain is attached\<close>

text \<open>
  C7, at the input where the code departs from it. With the path \<^verbatim>\<open>(a, b)\<close>,
  \<^verbatim>\<open>path.observe\<close> on the root \<^verbatim>\<open>{a: 5}\<close> throws a \<^verbatim>\<open>TypeError\<close>: \<^verbatim>\<open>attach\<close> tests the value
  with \<^verbatim>\<open>if (value)\<close> only and attaches the next link to the number. On the root \<^verbatim>\<open>{a: 0}\<close>
  it returns, the next link has no \<^verbatim>\<open>Observer\<close> and the resolved value is \<^verbatim>\<open>undefined\<close>.
\<close>

theorem attach_to_truthy_primitive_throws:
  "fst (Path_observe 0 (VObj 0) 100 (num_world 5)) = Inl TypeError
   \<and> (case Path_observe 0 (VObj 0) 100 (num_world 0) of
        (r, w) \<Rightarrow> (r, c_observers (chain_store w 0), c_value (chain_store w 0)))
     = (Inr (), [Some 0, None], VUndef)"
  by (simp add: run_defs)

section \<open>Reading through a path that is not observed\<close>

text \<open>
  C9, at the input where the code departs from it. With the path \<^verbatim>\<open>(a, b)\<close> and the root
  \<^verbatim>\<open>{a: 0}\<close>, not observed, \<^verbatim>\<open>path.get(root)\<close> returns the falsy intermediate value 0 itself,
  not \<^verbatim>\<open>undefined\<close>.
\<close>

theorem cold_get_returns_falsy_value:
  "observed_get (path_store (num_world 0) 0) (VObj 0) = None
   \<and> Path_get 0 (VObj 0) (num_world 0) = Inr (VNum 0)"
  by (simp add: run_defs)


section \<open>Observing a property that is not configurable\<close>

lemma registered_getMap:
  "unobserved w p r \<Longrightarrow>
   \<exists>m. getMap p True w = (Some (WeakMap m), w\<lparr>observers := (observers w)(p \<mapsto> m)\<rparr>)
       \<and> m r = None"
  by (auto simp: unobserved_def registered_def getMap_def observers_get_def map_upd_triv
      split: option.splits)

text \<open>The empty \<^verbatim>\<open>WeakMap\<close> that \<^verbatim>\<open>getMap\<close> creates registers nothing.\<close>

lemma getMap_registered:
  assumes "getMap p True w = (Some (WeakMap m), w1)"
    and "observers w' = (observers w)(p \<mapsto> m)"
  shows "registered w' q s = registered w q s"
  using assms
  by (auto simp: registered_def getMap_def observers_get_def split: option.splits if_splits)


text \<open>Under a name that the registry inherits, \<^verbatim>\<open>observe\<close> and \<^verbatim>\<open>unobserve\<close> throw and change
  nothing.\<close>

lemma inherited_name_throws:
  assumes "p \<in> set object_prototype_names" and "observers w p = None"
  shows "Observer_observe object p cb w = (Inl TypeError, w)"
    and "Observer_unobserve object p cb w = (Inl TypeError, w)"
  using assms
  by (simp_all add: Observer_observe_def Observer_unobserve_def getMap_def observers_get_def)

text \<open>
  C6, as the code has it, for a property that no \<^verbatim>\<open>Observer\<close> is registered for yet.
  Under a property name that the registry \<^verbatim>\<open>observers\<close> does not inherit from
  \<^verbatim>\<open>Object.prototype\<close>: when the property is a non-configurable data property that is
  writable, \<^verbatim>\<open>Observer.observe\<close> throws a \<^verbatim>\<open>TypeError\<close> (from \<^verbatim>\<open>Object.defineProperty\<close>), and
  leaves every descriptor and every registration as it was; when it is a non-configurable
  data property that is not writable, or a non-configurable accessor with a getter and no
  setter, the constructor takes its read-only short circuit: \<^verbatim>\<open>Observer.observe\<close> returns,
  no descriptor changes, and the \<^verbatim>\<open>Observer\<close> it registers has no definition, so it
  instruments nothing. Under a name that the registry inherits (\<^verbatim>\<open>constructor\<close>,
  \<^verbatim>\<open>toString\<close>, ...), \<^verbatim>\<open>Observer.observe\<close> throws a \<^verbatim>\<open>TypeError\<close> whatever the property is, and
  changes nothing.
\<close>

theorem observe_non_configurable:
  assumes "registered w p r = None"
  shows "(p \<notin> set object_prototype_names \<and> heap w r p = Some (Data v True e False) \<longrightarrow>
            fst (Observer_observe (VObj r) p cb w) = Inl TypeError
          \<and> heap (snd (Observer_observe (VObj r) p cb w)) = heap w
          \<and> (\<forall>q s. registered (snd (Observer_observe (VObj r) p cb w)) q s = registered w q s))
       \<and> (p \<notin> set object_prototype_names
            \<and> (heap w r p = Some (Data v False e False)
                \<or> heap w r p = Some (Accessor (Some g) None e False)) \<longrightarrow>
            fst (Observer_observe (VObj r) p cb w) = Inr (next_obs w)
          \<and> heap (snd (Observer_observe (VObj r) p cb w)) = heap w
          \<and> registered (snd (Observer_observe (VObj r) p cb w)) p r = Some (next_obs w)
          \<and> o_definition (obs_store (snd (Observer_observe (VObj r) p cb w)) (next_obs w)) = None
          \<and> o_callbacks (obs_store (snd (Observer_observe (VObj r) p cb w)) (next_obs w)) = [cb])
       \<and> (p \<in> set object_prototype_names \<and> observers w p = None \<longrightarrow>
            Observer_observe (VObj r) p cb w = (Inl TypeError, w))"
proof -
  have throws:
    "fst (Observer_observe (VObj r) p cb w) = Inl TypeError
     \<and> heap (snd (Observer_observe (VObj r) p cb w)) = heap w
     \<and> (\<forall>q s. registered (snd (Observer_observe (VObj r) p cb w)) q s = registered w q s)"
    if name: "p \<notin> set object_prototype_names"
      and "heap w r p = Some (Data v True e False)"
  proof -
    from assms name have "unobserved w p r" by (simp add: unobserved_def)
    then obtain m where
      m: "getMap p True w = (Some (WeakMap m), w\<lparr>observers := (observers w)(p \<mapsto> m)\<rparr>)"
         "m r = None"
      using registered_getMap by blast
    have "Observer_new r p (w\<lparr>observers := (observers w)(p \<mapsto> m)\<rparr>)
            = (Inl TypeError,
               w\<lparr>observers := (observers w)(p \<mapsto> m),
                 obs_store := (obs_store w)(next_obs w :=
                    \<lparr>o_callbacks = [], o_value = v, o_target = Some r, o_property = Some p,
                     o_definition = Some (desc_of (Data v True e False))\<rparr>),
                 next_obs := Suc (next_obs w)\<rparr>)"
      using that(2)
      by (simp add: Observer_new_def Let_def define_property_def is_accessor_desc_def
          is_data_desc_def or_else_def)
    then have "\<exists>w'. Observer_observe (VObj r) p cb w = (Inl TypeError, w')
                 \<and> heap w' = heap w \<and> observers w' = (observers w)(p \<mapsto> m)"
      by (simp add: Observer_observe_def m)
    then obtain w' where w': "Observer_observe (VObj r) p cb w = (Inl TypeError, w')"
      "heap w' = heap w" "observers w' = (observers w)(p \<mapsto> m)" by blast
    show ?thesis
      using w'(1,2) getMap_registered [OF m(1) w'(3)] by simp
  qed
  have returns:
    "fst (Observer_observe (VObj r) p cb w) = Inr (next_obs w)
     \<and> heap (snd (Observer_observe (VObj r) p cb w)) = heap w
     \<and> registered (snd (Observer_observe (VObj r) p cb w)) p r = Some (next_obs w)
     \<and> o_definition (obs_store (snd (Observer_observe (VObj r) p cb w)) (next_obs w)) = None
     \<and> o_callbacks (obs_store (snd (Observer_observe (VObj r) p cb w)) (next_obs w)) = [cb]"
    if name: "p \<notin> set object_prototype_names"
      and "heap w r p = Some (Data v False e False)
        \<or> heap w r p = Some (Accessor (Some g) None e False)"
  proof -
    from assms name have "unobserved w p r" by (simp add: unobserved_def)
    then obtain m where
      m: "getMap p True w = (Some (WeakMap m), w\<lparr>observers := (observers w)(p \<mapsto> m)\<rparr>)"
         "m r = None"
      using registered_getMap by blast
    show ?thesis
      using that(2) m(2)
      by (auto simp: Observer_observe_def m(1) Observer_new_def Let_def or_else_def
          Observer_add_def registered_def)
  qed
  from throws returns inherited_name_throws(1) show ?thesis by blast
qed

theorem observe_non_configurable_witness:
  "registered sealed_world ''a'' 0 = None
   \<and> ''a'' \<notin> set object_prototype_names
   \<and> heap sealed_world 0 ''a'' = Some (Data (VNum 1) True True False)
   \<and> fst (Observer_observe (VObj 0) ''a'' (UserCb 100) sealed_world) = Inl TypeError
   \<and> heap (snd (Observer_observe (VObj 0) ''a'' (UserCb 100) sealed_world)) = heap sealed_world
   \<and> registered (snd (Observer_observe (VObj 0) ''a'' (UserCb 100) sealed_world)) ''a'' 0 = None
   \<and> registered frozen_world ''a'' 0 = None
   \<and> heap frozen_world 0 ''a'' = Some (Data (VNum 1) False True False)
   \<and> fst (Observer_observe (VObj 0) ''a'' (UserCb 100) frozen_world) = Inr 0
   \<and> heap (snd (Observer_observe (VObj 0) ''a'' (UserCb 100) frozen_world)) = heap frozen_world
   \<and> registered getter_only_world ''a'' 0 = None
   \<and> heap getter_only_world 0 ''a'' = Some (Accessor (Some (UserGet 1 (VNum 5))) None True False)
   \<and> fst (Observer_observe (VObj 0) ''a'' (UserCb 100) getter_only_world) = Inr 0
   \<and> heap (snd (Observer_observe (VObj 0) ''a'' (UserCb 100) getter_only_world))
       = heap getter_only_world
   \<and> registered frozen_world ''toString'' 0 = None
   \<and> ''toString'' \<in> set object_prototype_names
   \<and> observers frozen_world ''toString'' = None
   \<and> Observer_observe (VObj 0) ''toString'' (UserCb 100) frozen_world
       = (Inl TypeError, frozen_world)"
proof -
  have name: "''a'' \<notin> set object_prototype_names"
    by (simp add: object_prototype_names_def)
  have s: "registered sealed_world ''a'' 0 = None"
          "heap sealed_world 0 ''a'' = Some (Data (VNum 1) True True False)"
    by (simp_all add: world_defs)
  have f: "registered frozen_world ''a'' 0 = None"
          "heap frozen_world 0 ''a'' = Some (Data (VNum 1) False True False)"
          "next_obs frozen_world = 0"
    by (simp_all add: world_defs)
  have g: "registered getter_only_world ''a'' 0 = None"
          "heap getter_only_world 0 ''a'' = Some (Accessor (Some (UserGet 1 (VNum 5))) None True False)"
          "next_obs getter_only_world = 0"
    by (simp_all add: world_defs)
  have t: "registered frozen_world ''toString'' 0 = None"
          "''toString'' \<in> set object_prototype_names"
          "observers frozen_world ''toString'' = None"
    by (simp_all add: world_defs object_prototype_names_def)
  show ?thesis
    using name s f g t
      observe_non_configurable [OF s(1), where v = "VNum 1" and e = True and cb = "UserCb 100"]
      observe_non_configurable [OF f(1), where v = "VNum 1" and e = True and cb = "UserCb 100"]
      observe_non_configurable [OF g(1), where g = "UserGet 1 (VNum 5)" and e = True
        and cb = "UserCb 100"]
      observe_non_configurable [OF t(1), where cb = "UserCb 100"]
    by simp
qed

text \<open>C6 as stated fails: on a property that is neither configurable nor writable,
  \<^verbatim>\<open>Observer.observe\<close> raises no error.\<close>

theorem observe_frozen_property_returns:
  "heap frozen_world 0 ''a'' = Some (Data (VNum 1) False True False)
   \<and> fst (Observer_observe (VObj 0) ''a'' (UserCb 100) frozen_world) = Inr 0"
  by (simp add: run_defs)


section \<open>Restoring the descriptor\<close>




























section \<open>Falsy roots\<close>

text \<open>
  C10, as the code has it. \<^verbatim>\<open>Path.observe\<close> with a falsy root throws the \<^verbatim>\<open>Error\<close>
  \<^verbatim>\<open>'Cannot bind to undefined value'\<close> and changes nothing; \<^verbatim>\<open>Path.unobserve\<close> with a falsy
  root throws nothing: it returns \<^verbatim>\<open>false\<close> and changes nothing.
\<close>

theorem falsy_root_observe_throws_unobserve_false:
  assumes "\<not> truthy root"
  shows "Path_observe this root callback w = (Inl InvalidRoot, w)
       \<and> Path_unobserve this root callback w = (Inr False, w)"
  using assms by (simp add: Path_observe_def Path_unobserve_def)

theorem falsy_root_witness:
  "\<not> truthy (VNum 0)
   \<and> Path_observe 0 (VNum 0) 100 abc_world = (Inl InvalidRoot, abc_world)
   \<and> Path_unobserve 0 (VNum 0) 100 abc_world = (Inr False, abc_world)"
  using falsy_root_observe_throws_unobserve_false [of "VNum 0" 0 100 abc_world] by simp

text \<open>C10 as stated fails: \<^verbatim>\<open>path.unobserve(null, callback)\<close> raises no error.\<close>

theorem unobserve_null_returns_false:
  "Path_unobserve 0 VNull 100 abc_world = (Inr False, abc_world)"
  by (simp add: Path_unobserve_def)


end
